theory Spec2Isabelle
  imports Main "HOL-Library.AList"
begin

section \<open>The command store of \<^verbatim>\<open>src/store/command.ts\<close>\<close>

text \<open>
  The store keeps two stacks of commands in the state object. A command is a pair of
  edit scripts; a command mutation records the scripts of a recipe with immer's
  \<^verbatim>\<open>produceWithPatches\<close>, converts every immer patch to an rfc6902 operation, applies
  the forward script with rfc6902's \<^verbatim>\<open>applyPatch\<close> and pushes the command.

  Both libraries are imported by the file and are not part of it. The functions of the
  file take them as parameters (\<open>applier\<close>, \<open>producer\<close>); the second half of the theory
  gives a model of both on JSON trees, for the statements that depend on what they compute.
\<close>

subsection \<open>Values of the state tree\<close>

datatype json =
    JUndefined
  | JNull
  | JBool bool
  | JNum int
  | JStr string
  | JArr "json list"
  | JObj "(string \<times> json) list"

subsection \<open>Patches, operations, commands\<close>

text \<open>immer's \<^verbatim>\<open>Patch\<close>: \<^verbatim>\<open>{op: "replace" | "remove" | "add", path: (string | number)[], value?: any}\<close>.\<close>

datatype patch_op = PatchReplace | PatchRemove | PatchAdd

datatype segment = Key string | Index nat

record Patch =
  op :: patch_op
  path :: "segment list"
  value' :: "json option"

text \<open>
  rfc6902's \<^verbatim>\<open>Operation\<close>: an object with \<^verbatim>\<open>op\<close> and \<^verbatim>\<open>path\<close> (a JSON Pointer string) and,
  depending on the operation, the properties \<^verbatim>\<open>value\<close> and \<^verbatim>\<open>from\<close>. An optional property
  is an \<open>option\<close>: \<open>None\<close> when the object does not carry it, \<open>Some JUndefined\<close> when it
  carries it with the value \<^verbatim>\<open>undefined\<close>.
\<close>

datatype op_name = Add | Remove | Replace | Move | Copy | Test

record Operation =
  op :: op_name
  path :: string
  value' :: "json option"
  from' :: "string option"

record Command =
  doOperation :: "Operation list"
  undoOperation :: "Operation list"

record UndoRedoState =
  undoCommands :: "Command list"
  redoCommands :: "Command list"

subsection \<open>JavaScript helpers\<close>

text \<open>\<^verbatim>\<open>Array.prototype.pop\<close>: the last element and the shortened array; \<^verbatim>\<open>undefined\<close> (here
  \<open>None\<close>) on an empty array, which stays as it is.\<close>

fun pop :: "'a list \<Rightarrow> 'a option \<times> 'a list" where
  "pop [] = (None, [])"
| "pop (x # xs) = (Some (last (x # xs)), butlast (x # xs))"

text \<open>\<^verbatim>\<open>Array.prototype.join\<close> on strings.\<close>

fun join :: "string \<Rightarrow> string list \<Rightarrow> string" where
  "join sep [] = []"
| "join sep [x] = x"
| "join sep (x # y # ys) = x @ sep @ join sep (y # ys)"

text \<open>The decimal digits of a number, as \<^verbatim>\<open>String(n)\<close> writes a non-negative integer.\<close>

definition digit_char :: "nat \<Rightarrow> char" where
  "digit_char d = char_of (48 + d)"

fun show_nat :: "nat \<Rightarrow> string" where
  "show_nat n = (if n < 10 then [digit_char n] else show_nat (n div 10) @ [digit_char (n mod 10)])"

declare show_nat.simps [simp del]

text \<open>\<^verbatim>\<open>join\<close> converts every element with \<^verbatim>\<open>String\<close>: a key is itself, an index its digits.\<close>

fun segment_string :: "segment \<Rightarrow> string" where
  "segment_string (Key k) = k"
| "segment_string (Index n) = show_nat n"

subsection \<open>Recording\<close>

text \<open>\<^verbatim>\<open>patchToOperation\<close>: \<^verbatim>\<open>{op: patch.op, path: `/${patch.path.join("/")}`, value: patch.value}\<close>.
  The object literal always has the property \<^verbatim>\<open>value\<close>; reading the absent \<^verbatim>\<open>value\<close> of a
  patch gives \<^verbatim>\<open>undefined\<close>.\<close>

fun op_of_patch :: "patch_op \<Rightarrow> op_name" where
  "op_of_patch PatchReplace = Replace"
| "op_of_patch PatchRemove = Remove"
| "op_of_patch PatchAdd = Add"

definition patchToOperation :: "Patch \<Rightarrow> Operation" where
  "patchToOperation patch =
     \<lparr> Operation.op = op_of_patch (Patch.op patch),
       Operation.path = CHR ''/'' # join ''/'' (map segment_string (Patch.path patch)),
       Operation.value' = Some (case Patch.value' patch of None \<Rightarrow> JUndefined | Some v \<Rightarrow> v),
       Operation.from' = None \<rparr>"

text \<open>
  \<^verbatim>\<open>recordOperations\<close>. The \<open>producer\<close> stands for \<^verbatim>\<open>immer.produceWithPatches\<close>: given the
  state and the recipe closed over the payload it returns the next state, the patches
  and the inverse patches, or the error that the recipe raised.
\<close>

definition recordOperations ::
  "('s \<Rightarrow> ('s \<Rightarrow> 'e + 's) \<Rightarrow> 'e + ('s \<times> Patch list \<times> Patch list)) \<Rightarrow>
   ('s \<Rightarrow> 'p \<Rightarrow> 'e + 's) \<Rightarrow> 's \<Rightarrow> 'p \<Rightarrow> 'e + Command" where
  "recordOperations producer recipe state payload =
     (case producer state (\<lambda>draft. recipe draft payload) of
        Inl e \<Rightarrow> Inl e
      | Inr (_, doPatches, undoPatches) \<Rightarrow>
          Inr \<lparr> doOperation = map patchToOperation doPatches,
                undoOperation = map patchToOperation undoPatches \<rparr>)"

subsection \<open>Mutations\<close>

text \<open>
  The \<open>applier\<close> stands for rfc6902's \<^verbatim>\<open>applyPatch\<close>: it changes the state object in place
  (here: returns the changed state) and returns one result for each operation. No caller
  in the file reads the results.

  A mutation returns the error it raised, if any, and the state it leaves.
\<close>

definition createCommandMutation ::
  "('a UndoRedoState_scheme \<Rightarrow> Operation list \<Rightarrow> 'a UndoRedoState_scheme \<times> 'r) \<Rightarrow>
   ('a UndoRedoState_scheme \<Rightarrow> ('a UndoRedoState_scheme \<Rightarrow> 'e + 'a UndoRedoState_scheme) \<Rightarrow>
      'e + ('a UndoRedoState_scheme \<times> Patch list \<times> Patch list)) \<Rightarrow>
   ('a UndoRedoState_scheme \<Rightarrow> 'p \<Rightarrow> 'e + 'a UndoRedoState_scheme) \<Rightarrow>
   'a UndoRedoState_scheme \<Rightarrow> 'p \<Rightarrow> 'e option \<times> 'a UndoRedoState_scheme" where
  "createCommandMutation applier producer payloadRecipe state payload =
     (case recordOperations producer payloadRecipe state payload of
        Inl e \<Rightarrow> (Some e, state)
      | Inr command \<Rightarrow>
          (let state1 = fst (applier state (doOperation command));
               state2 = state1\<lparr>undoCommands := undoCommands state1 @ [command]\<rparr>
           in (None, state2\<lparr>redoCommands := []\<rparr>)))"

definition UNDO ::
  "('a UndoRedoState_scheme \<Rightarrow> Operation list \<Rightarrow> 'a UndoRedoState_scheme \<times> 'r) \<Rightarrow>
   'a UndoRedoState_scheme \<Rightarrow> 'a UndoRedoState_scheme" where
  "UNDO applier state =
     (case pop (undoCommands state) of
        (None, _) \<Rightarrow> state
      | (Some command, rest) \<Rightarrow>
          fst (applier
                 (state\<lparr>undoCommands := rest, redoCommands := redoCommands state @ [command]\<rparr>)
                 (undoOperation command)))"

definition REDO ::
  "('a UndoRedoState_scheme \<Rightarrow> Operation list \<Rightarrow> 'a UndoRedoState_scheme \<times> 'r) \<Rightarrow>
   'a UndoRedoState_scheme \<Rightarrow> 'a UndoRedoState_scheme" where
  "REDO applier state =
     (case pop (redoCommands state) of
        (None, _) \<Rightarrow> state
      | (Some command, rest) \<Rightarrow>
          fst (applier
                 (state\<lparr>redoCommands := rest, undoCommands := undoCommands state @ [command]\<rparr>)
                 (doOperation command)))"

definition CLEAR_COMMANDS :: "'a UndoRedoState_scheme \<Rightarrow> 'a UndoRedoState_scheme" where
  "CLEAR_COMMANDS state = state\<lparr>redoCommands := [], undoCommands := []\<rparr>"

definition CAN_UNDO :: "'a UndoRedoState_scheme \<Rightarrow> bool" where
  "CAN_UNDO state \<longleftrightarrow> length (undoCommands state) > 0"

definition CAN_REDO :: "'a UndoRedoState_scheme \<Rightarrow> bool" where
  "CAN_REDO state \<longleftrightarrow> length (redoCommands state) > 0"

subsection \<open>The state of the scenarios\<close>

text \<open>
  The type \<^verbatim>\<open>State\<close> is imported from \<^verbatim>\<open>./type\<close>. Here it is the two stacks and a JSON
  object \<open>tree\<close> holding every other property of the state object.
\<close>

record State = UndoRedoState +
  tree :: json

subsection \<open>The patch applier\<close>

text \<open>Modelled from the spec: rfc6902's \<^verbatim>\<open>applyPatch\<close> is imported by the file, its code is
  not part of the sources. Every definition of this subsection belongs to its model, the
  Patch Applier of section 4.2 of the specification ("JSON-Patch-style semantics").

  A path is a JSON Pointer: the empty string is the root; otherwise a \<^verbatim>\<open>/\<close> starts every
  token, and in a token \<^verbatim>\<open>~1\<close> reads \<^verbatim>\<open>/\<close> and \<^verbatim>\<open>~0\<close> reads \<^verbatim>\<open>~\<close>.\<close>

fun split_on :: "char \<Rightarrow> string \<Rightarrow> string list" where
  "split_on c [] = [[]]"
| "split_on c (x # xs) =
     (if x = c then [] # split_on c xs
      else (case split_on c xs of [] \<Rightarrow> [[x]] | w # ws \<Rightarrow> (x # w) # ws))"

fun unescape :: "string \<Rightarrow> string" where
  "unescape [] = []"
| "unescape [x] = [x]"
| "unescape (x # y # ys) =
     (if x = CHR ''~'' \<and> y = CHR ''1'' then CHR ''/'' # unescape ys
      else if x = CHR ''~'' \<and> y = CHR ''0'' then CHR ''~'' # unescape ys
      else x # unescape (y # ys))"

fun pointer_tokens :: "string \<Rightarrow> string list option" where
  "pointer_tokens [] = Some []"
| "pointer_tokens (x # xs) =
     (if x = CHR ''/'' then Some (map unescape (split_on CHR ''/'' xs)) else None)"

text \<open>An array index is a non-empty string of decimal digits.\<close>

definition digit_value :: "char \<Rightarrow> nat" where
  "digit_value c = of_char c - 48"

definition is_digit :: "char \<Rightarrow> bool" where
  "is_digit c \<longleftrightarrow> 48 \<le> (of_char c :: nat) \<and> (of_char c :: nat) \<le> 57"

definition array_index :: "string \<Rightarrow> nat option" where
  "array_index k =
     (if k \<noteq> [] \<and> list_all is_digit k
      then Some (foldl (\<lambda>a c. 10 * a + digit_value c) 0 k) else None)"

fun get_child :: "json \<Rightarrow> string \<Rightarrow> json option" where
  "get_child (JObj fs) k = map_of fs k"
| "get_child (JArr xs) k =
     (case array_index k of
        None \<Rightarrow> None
      | Some i \<Rightarrow> if i < length xs then Some (xs ! i) else None)"
| "get_child _ k = None"

fun add_child :: "json \<Rightarrow> json \<Rightarrow> string \<Rightarrow> json option" where
  "add_child v (JObj fs) k = Some (JObj (AList.update k v fs))"
| "add_child v (JArr xs) k =
     (if k = ''-'' then Some (JArr (xs @ [v]))
      else (case array_index k of
              None \<Rightarrow> None
            | Some i \<Rightarrow> if i \<le> length xs then Some (JArr (take i xs @ v # drop i xs)) else None))"
| "add_child v _ k = None"

fun remove_child :: "json \<Rightarrow> string \<Rightarrow> json option" where
  "remove_child (JObj fs) k =
     (case map_of fs k of None \<Rightarrow> None | Some _ \<Rightarrow> Some (JObj (AList.delete k fs)))"
| "remove_child (JArr xs) k =
     (case array_index k of
        None \<Rightarrow> None
      | Some i \<Rightarrow> if i < length xs then Some (JArr (take i xs @ drop (Suc i) xs)) else None)"
| "remove_child _ k = None"

fun replace_child :: "json \<Rightarrow> json \<Rightarrow> string \<Rightarrow> json option" where
  "replace_child v (JObj fs) k =
     (case map_of fs k of None \<Rightarrow> None | Some _ \<Rightarrow> Some (JObj (AList.update k v fs)))"
| "replace_child v (JArr xs) k =
     (case array_index k of
        None \<Rightarrow> None
      | Some i \<Rightarrow> if i < length xs then Some (JArr (xs[i := v])) else None)"
| "replace_child v _ k = None"

text \<open>Walk to the parent of the last token and change it there; every parent on the way
  must exist.\<close>

fun at_parent :: "(json \<Rightarrow> string \<Rightarrow> json option) \<Rightarrow> json \<Rightarrow> string list \<Rightarrow> json option" where
  "at_parent f t [] = None"
| "at_parent f t [k] = f t k"
| "at_parent f t (k # k' # ks) =
     (case get_child t k of
        None \<Rightarrow> None
      | Some c \<Rightarrow>
          (case at_parent f c (k' # ks) of
             None \<Rightarrow> None
           | Some c' \<Rightarrow> replace_child c' t k))"

fun get_at :: "json \<Rightarrow> string list \<Rightarrow> json option" where
  "get_at t [] = Some t"
| "get_at t (k # ks) = (case get_child t k of None \<Rightarrow> None | Some c \<Rightarrow> get_at c ks)"

definition add_at :: "json \<Rightarrow> string list \<Rightarrow> json \<Rightarrow> json option" where
  "add_at t ks v = (if ks = [] then Some v else at_parent (add_child v) t ks)"

definition remove_at :: "json \<Rightarrow> string list \<Rightarrow> json option" where
  "remove_at t ks = at_parent remove_child t ks"

definition replace_at :: "json \<Rightarrow> string list \<Rightarrow> json \<Rightarrow> json option" where
  "replace_at t ks v = (if ks = [] then Some v else at_parent (replace_child v) t ks)"

datatype apply_failure = PathMissing | TestMismatch

definition operation_value :: "Operation \<Rightarrow> json" where
  "operation_value operation =
     (case Operation.value' operation of None \<Rightarrow> JUndefined | Some v \<Rightarrow> v)"

definition succeed_or :: "json \<Rightarrow> json option \<Rightarrow> json \<times> apply_failure option" where
  "succeed_or t r = (case r of None \<Rightarrow> (t, Some PathMissing) | Some t' \<Rightarrow> (t', None))"

text \<open>Modelled from the spec: one operation of rfc6902's \<^verbatim>\<open>applyPatch\<close>, which is imported.
  Section 4.2 of the specification: \<open>Add\<close> inserts the value at the path (in a sequence
  the later elements shift; the append index is supported); \<open>Remove\<close> and \<open>Replace\<close>
  require the path to exist; \<open>Move\<close> removes the value at \<open>from\<close> and adds it at the path;
  \<open>Copy\<close> reads the value at \<open>from\<close> and adds it at the path; \<open>Test\<close> compares and never
  changes the tree. An operation whose precondition fails leaves the tree as it is and
  reports the failure as its result.
\<close>

definition apply_operation :: "json \<Rightarrow> Operation \<Rightarrow> json \<times> apply_failure option" where
  "apply_operation t operation =
     (case pointer_tokens (Operation.path operation) of
        None \<Rightarrow> (t, Some PathMissing)
      | Some ks \<Rightarrow>
          (case Operation.op operation of
             Add \<Rightarrow> succeed_or t (add_at t ks (operation_value operation))
           | Remove \<Rightarrow> succeed_or t (remove_at t ks)
           | Replace \<Rightarrow> succeed_or t (replace_at t ks (operation_value operation))
           | Move \<Rightarrow>
               (case Option.bind (Operation.from' operation) pointer_tokens of
                  None \<Rightarrow> (t, Some PathMissing)
                | Some fs \<Rightarrow>
                    (case get_at t fs of
                       None \<Rightarrow> (t, Some PathMissing)
                     | Some v \<Rightarrow>
                         (case remove_at t fs of
                            None \<Rightarrow> (t, Some PathMissing)
                          | Some t1 \<Rightarrow> succeed_or t (add_at t1 ks v))))
           | Copy \<Rightarrow>
               (case Option.bind (Operation.from' operation) pointer_tokens of
                  None \<Rightarrow> (t, Some PathMissing)
                | Some fs \<Rightarrow>
                    (case get_at t fs of
                       None \<Rightarrow> (t, Some PathMissing)
                     | Some v \<Rightarrow> succeed_or t (add_at t ks v)))
           | Test \<Rightarrow>
               (case get_at t ks of
                  None \<Rightarrow> (t, Some PathMissing)
                | Some v \<Rightarrow>
                    if v = operation_value operation then (t, None) else (t, Some TestMismatch))))"

text \<open>Modelled from the spec: the script of rfc6902's \<^verbatim>\<open>applyPatch\<close>. It is applied
  operation by operation, in order, each to the tree that the one before left, with no
  rollback; the results are returned in the same order.\<close>

fun apply_operations :: "json \<Rightarrow> Operation list \<Rightarrow> json \<times> apply_failure option list" where
  "apply_operations t [] = (t, [])"
| "apply_operations t (operation # rest) =
     (case apply_operation t operation of
        (t1, r) \<Rightarrow> (case apply_operations t1 rest of (t2, rs) \<Rightarrow> (t2, r # rs)))"

text \<open>Modelled from the spec: rfc6902's \<^verbatim>\<open>applyPatch(state, operations)\<close> on the state
  object. Pointers are resolved in \<open>tree\<close>, the live state tree of the specification.
  The two stacks are typed fields of the record, kept apart from the tree: a pointer
  into them is not modelled (it resolves like any path that the tree does not have).
  Every statement below that applies this function does so on a script whose pointers
  stay outside the stacks (\<open>outside_stacks\<close>, defined further down).\<close>

definition applyPatch :: "State \<Rightarrow> Operation list \<Rightarrow> State \<times> apply_failure option list" where
  "applyPatch state operations =
     (case apply_operations (tree state) operations of
        (t, results) \<Rightarrow> (state\<lparr>tree := t\<rparr>, results))"

subsection \<open>The diff recorder\<close>

text \<open>Modelled from the spec: immer's \<^verbatim>\<open>produceWithPatches\<close> is imported by the file, its
  code is not part of the sources. Every definition of this subsection belongs to its
  model, the Diff Recorder of section 4.1 of the specification.\<close>

definition mk_patch :: "patch_op \<Rightarrow> segment list \<Rightarrow> json option \<Rightarrow> Patch" where
  "mk_patch kind p v = \<lparr> Patch.op = kind, Patch.path = p, Patch.value' = v \<rparr>"

text \<open>Keys of the second object that the first does not have are added, in their order.\<close>

definition added_fields ::
  "segment list \<Rightarrow> (string \<times> json) list \<Rightarrow> (string \<times> json) list \<Rightarrow> Patch list" where
  "added_fields p fs gs =
     map (\<lambda>(k, w). mk_patch PatchAdd (p @ [Key k]) (Some w))
       (filter (\<lambda>(k, w). map_of fs k = None) gs)"

text \<open>Modelled from the spec: the patches of immer's \<^verbatim>\<open>produceWithPatches\<close>, which is
  imported. Section 4.1 of the specification: the differences between the original and
  the changed copy, as an ordered script that rebuilds the copy from the original;
  equality is structural; nothing changed gives the empty script; in a sequence the
  indices are ordered so that no operation misaddresses a later one. Here objects are
  compared key by key and sequences index by index; elements beyond the shorter
  sequence are added with ascending indices or removed with descending ones.\<close>

fun diff :: "segment list \<Rightarrow> json \<Rightarrow> json \<Rightarrow> Patch list"
  and diff_fields :: "segment list \<Rightarrow> (string \<times> json) list \<Rightarrow> (string \<times> json) list \<Rightarrow> Patch list"
  and diff_elements :: "segment list \<Rightarrow> nat \<Rightarrow> json list \<Rightarrow> json list \<Rightarrow> Patch list" where
  "diff p (JObj fs) (JObj gs) =
     (if fs = gs then [] else diff_fields p fs gs @ added_fields p fs gs)"
| "diff p (JArr xs) (JArr ys) =
     (if xs = ys then [] else diff_elements p 0 xs ys)"
| "diff p a b = (if a = b then [] else [mk_patch PatchReplace p (Some b)])"
| "diff_fields p [] gs = []"
| "diff_fields p ((k, v) # fs) gs =
     (case map_of gs k of
        None \<Rightarrow> [mk_patch PatchRemove (p @ [Key k]) None]
      | Some w \<Rightarrow> diff (p @ [Key k]) v w) @ diff_fields p fs gs"
| "diff_elements p i [] ys =
     map (\<lambda>(j, y). mk_patch PatchAdd (p @ [Index j]) (Some y)) (zip [i ..< i + length ys] ys)"
| "diff_elements p i (x # xs) [] =
     map (\<lambda>j. mk_patch PatchRemove (p @ [Index j]) None) (rev [i ..< i + length (x # xs)])"
| "diff_elements p i (x # xs) (y # ys) =
     diff (p @ [Index i]) x y @ diff_elements p (Suc i) xs ys"

text \<open>Modelled from the spec: \<^verbatim>\<open>immer.produceWithPatches(state, recipe)\<close>, which is imported.
  Section 4.1 of the specification: the recipe runs on a scratch copy of the state, the
  original is never changed; an error of the recipe propagates and nothing is produced;
  otherwise the forward script is the difference from the original to the result and
  the inverse script the difference back. The scripts are computed on \<open>tree\<close>; the
  recipes below do not write the two stacks.\<close>

definition produceWithPatches ::
  "State \<Rightarrow> (State \<Rightarrow> 'e + State) \<Rightarrow> 'e + (State \<times> Patch list \<times> Patch list)" where
  "produceWithPatches base recipe =
     (case recipe base of
        Inl e \<Rightarrow> Inl e
      | Inr next \<Rightarrow>
          Inr (next, diff [] (tree base) (tree next), diff [] (tree next) (tree base)))"

subsection \<open>Properties used in the statements\<close>

text \<open>
  An applier respects the stacks on a script when it neither reads nor writes them: with
  other stacks it leaves the same state, up to those stacks. rfc6902's \<^verbatim>\<open>applyPatch\<close> does
  so on every script whose pointers stay outside \<^verbatim>\<open>/undoCommands\<close> and \<^verbatim>\<open>/redoCommands\<close>.
\<close>

definition stack_frame ::
  "('a UndoRedoState_scheme \<Rightarrow> Operation list \<Rightarrow> 'a UndoRedoState_scheme \<times> 'r) \<Rightarrow>
   Operation list \<Rightarrow> bool" where
  "stack_frame applier operations \<longleftrightarrow>
     (\<forall>state u r.
        fst (applier (state\<lparr>undoCommands := u, redoCommands := r\<rparr>) operations) =
        (fst (applier state operations))\<lparr>undoCommands := u, redoCommands := r\<rparr>)"

text \<open>The pointers that reach the two stacks of the state object: the root and every
  pointer whose first token names a stack. A script stays outside the stacks when no
  \<^verbatim>\<open>path\<close> and no \<^verbatim>\<open>from\<close> of its operations is such a pointer.\<close>

definition stack_pointer :: "string \<Rightarrow> bool" where
  "stack_pointer pointer \<longleftrightarrow>
     (case pointer_tokens pointer of
        None \<Rightarrow> False
      | Some [] \<Rightarrow> True
      | Some (k # ks) \<Rightarrow> k = ''undoCommands'' \<or> k = ''redoCommands'')"

definition outside_stacks :: "Operation list \<Rightarrow> bool" where
  "outside_stacks operations \<longleftrightarrow>
     list_all
       (\<lambda>operation.
          \<not> stack_pointer (Operation.path operation) \<and>
          (case Operation.from' operation of None \<Rightarrow> True | Some f \<Rightarrow> \<not> stack_pointer f))
       operations"

text \<open>The path string of a claim about the emitted operations, written from its words
  and not with \<^verbatim>\<open>join\<close>: every segment is written after a slash, one after the other; with
  no segment the string is the single slash.\<close>

fun slash_segments :: "segment list \<Rightarrow> string" where
  "slash_segments [] = []"
| "slash_segments (s # ss) = CHR ''/'' # segment_string s @ slash_segments ss"

definition pointer_text :: "segment list \<Rightarrow> string" where
  "pointer_text segments = (if segments = [] then ''/'' else slash_segments segments)"

text \<open>The shape of the operation emitted for a patch: the path is that string, the
  property \<^verbatim>\<open>value\<close> is there, the property \<^verbatim>\<open>from\<close> is not.\<close>

definition emitted_for :: "Patch \<Rightarrow> Operation \<Rightarrow> bool" where
  "emitted_for patch operation \<longleftrightarrow>
     Operation.path operation = pointer_text (Patch.path patch) \<and>
     Operation.value' operation \<noteq> None \<and>
     Operation.from' operation = None"

subsection \<open>Inputs of the scenarios\<close>

text \<open>The recipe \<^verbatim>\<open>(draft, item) => { draft.items.push(item) }\<close>; it raises when the draft has
  no array \<^verbatim>\<open>items\<close>.\<close>

definition push_item :: "State \<Rightarrow> json \<Rightarrow> string + State" where
  "push_item draft item =
     (case tree draft of
        JObj fs \<Rightarrow>
          (case map_of fs ''items'' of
             Some (JArr xs) \<Rightarrow>
               Inr (draft\<lparr>tree := JObj (AList.update ''items'' (JArr (xs @ [item])) fs)\<rparr>)
           | _ \<Rightarrow> Inl ''TypeError'')
      | _ \<Rightarrow> Inl ''TypeError'')"

text \<open>The recipe \<^verbatim>\<open>(draft, {key, value}) => { draft[key] = value }\<close>.\<close>

definition assign_key :: "State \<Rightarrow> string \<times> json \<Rightarrow> string + State" where
  "assign_key draft payload =
     (case tree draft of
        JObj fs \<Rightarrow> Inr (draft\<lparr>tree := JObj (AList.update (fst payload) (snd payload) fs)\<rparr>)
      | _ \<Rightarrow> Inl ''TypeError'')"

text \<open>The recipe that changes nothing.\<close>

definition keep :: "State \<Rightarrow> unit \<Rightarrow> string + State" where
  "keep draft payload = Inr draft"

definition items_state :: State where
  "items_state =
     \<lparr> undoCommands = [], redoCommands = [],
       tree = JObj [(''items'', JArr [JStr ''a'', JStr ''b''])] \<rparr>"

definition push_command :: "nat \<Rightarrow> json \<Rightarrow> Command" where
  "push_command i item =
     \<lparr> doOperation = [patchToOperation (mk_patch PatchAdd [Key ''items'', Index i] (Some item))],
       undoOperation = [patchToOperation (mk_patch PatchRemove [Key ''items'', Index i] None)] \<rparr>"

definition slash_state :: State where
  "slash_state =
     \<lparr> undoCommands = [], redoCommands = [], tree = JObj [(''a/b'', JNum 1)] \<rparr>"

text \<open>A command that was not derived from the state it meets: both scripts remove a
  property that the tree does not have.\<close>

definition stale_command :: Command where
  "stale_command =
     \<lparr> doOperation = [\<lparr> Operation.op = Remove, path = ''/gone'', value' = None, from' = None \<rparr>],
       undoOperation = [\<lparr> Operation.op = Remove, path = ''/gone'', value' = None, from' = None \<rparr>] \<rparr>"

definition stale_state :: State where
  "stale_state =
     \<lparr> undoCommands = [stale_command], redoCommands = [],
       tree = JObj [(''items'', JArr [JStr ''a'', JStr ''b''])] \<rparr>"

text \<open>A state with a command on each stack.\<close>

definition undo_ready :: State where
  "undo_ready =
     \<lparr> undoCommands = [push_command 2 (JStr ''c'')],
       redoCommands = [push_command 3 (JStr ''d'')],
       tree = JObj [(''items'', JArr [JStr ''a'', JStr ''b'', JStr ''c''])] \<rparr>"

text \<open>The states of the run: commit of \<open>c\<close>, commit of \<open>d\<close>, undo, commit of \<open>e\<close>.\<close>

definition after_A :: State where
  "after_A =
     \<lparr> undoCommands = [push_command 2 (JStr ''c'')], redoCommands = [],
       tree = JObj [(''items'', JArr [JStr ''a'', JStr ''b'', JStr ''c''])] \<rparr>"

definition after_B :: State where
  "after_B =
     \<lparr> undoCommands = [push_command 2 (JStr ''c''), push_command 3 (JStr ''d'')],
       redoCommands = [],
       tree = JObj [(''items'', JArr [JStr ''a'', JStr ''b'', JStr ''c'', JStr ''d''])] \<rparr>"

definition after_undo :: State where
  "after_undo =
     \<lparr> undoCommands = [push_command 2 (JStr ''c'')],
       redoCommands = [push_command 3 (JStr ''d'')],
       tree = JObj [(''items'', JArr [JStr ''a'', JStr ''b'', JStr ''c''])] \<rparr>"

definition after_C :: State where
  "after_C =
     \<lparr> undoCommands = [push_command 2 (JStr ''c''), push_command 3 (JStr ''e'')],
       redoCommands = [],
       tree = JObj [(''items'', JArr [JStr ''a'', JStr ''b'', JStr ''c'', JStr ''e''])] \<rparr>"

text \<open>A command whose undo script fails in part: its first operation removes a property
  that the tree does not have, its second one removes the last item. The state holds it
  on the undo stack and the stale command on the redo stack.\<close>

definition partly_stale_command :: Command where
  "partly_stale_command =
     \<lparr> doOperation = [],
       undoOperation =
         [\<lparr> Operation.op = Remove, path = ''/gone'', value' = None, from' = None \<rparr>,
          \<lparr> Operation.op = Remove, path = ''/items/2'', value' = None, from' = None \<rparr>] \<rparr>"

definition partly_stale :: State where
  "partly_stale =
     \<lparr> undoCommands = [partly_stale_command], redoCommands = [stale_command],
       tree = JObj [(''items'', JArr [JStr ''a'', JStr ''b'', JStr ''c''])] \<rparr>"

text \<open>The stale state after the command has moved to the redo stack.\<close>

definition stale_moved :: State where
  "stale_moved =
     \<lparr> undoCommands = [], redoCommands = [stale_command],
       tree = JObj [(''items'', JArr [JStr ''a'', JStr ''b''])] \<rparr>"

section \<open>Properties\<close>

subsection \<open>The stacks\<close>

lemma pop_nonempty: "xs \<noteq> [] \<Longrightarrow> pop xs = (Some (last xs), butlast xs)"
  by (cases xs) simp_all

lemma stack_frame_apply:
  "stack_frame applier operations \<Longrightarrow>
   fst (applier (state\<lparr>undoCommands := u, redoCommands := r\<rparr>) operations) =
   (fst (applier state operations))\<lparr>undoCommands := u, redoCommands := r\<rparr>"
  unfolding stack_frame_def by blast

lemma stack_frame_keeps:
  assumes "stack_frame applier operations"
  shows "undoCommands (fst (applier state operations)) = undoCommands state"
    and "redoCommands (fst (applier state operations)) = redoCommands state"
proof -
  let ?x = "fst (applier state operations)"
  have "state\<lparr>undoCommands := undoCommands state, redoCommands := redoCommands state\<rparr> = state"
    by simp
  with stack_frame_apply [where state = state and u = "undoCommands state"
      and r = "redoCommands state", OF assms]
  have eq: "?x = ?x\<lparr>undoCommands := undoCommands state, redoCommands := redoCommands state\<rparr>"
    by simp
  have "undoCommands (?x\<lparr>undoCommands := undoCommands state, redoCommands := redoCommands state\<rparr>) =
        undoCommands state" by simp
  with eq show "undoCommands ?x = undoCommands state" by simp
  have "redoCommands (?x\<lparr>undoCommands := undoCommands state, redoCommands := redoCommands state\<rparr>) =
        redoCommands state" by simp
  with eq show "redoCommands ?x = redoCommands state" by simp
qed

lemma stack_frame_applyPatch:
  "outside_stacks operations \<Longrightarrow> stack_frame applyPatch operations"
  by (simp add: stack_frame_def applyPatch_def split: prod.splits)

lemma push_command_outside_stacks:
  "outside_stacks (doOperation (push_command 2 (JStr ''c'')))"
  "outside_stacks (undoOperation (push_command 2 (JStr ''c'')))"
  "outside_stacks (doOperation (push_command 3 (JStr ''d'')))"
  "outside_stacks (undoOperation (push_command 3 (JStr ''d'')))"
  "outside_stacks (doOperation (push_command 3 (JStr ''e'')))"
  by code_simp+

lemma UNDO_empty: "undoCommands state = [] \<Longrightarrow> UNDO applier state = state"
  by (simp add: UNDO_def)

lemma REDO_empty: "redoCommands state = [] \<Longrightarrow> REDO applier state = state"
  by (simp add: REDO_def)

lemma UNDO_nonempty:
  assumes ne: "undoCommands state \<noteq> []"
    and fr: "stack_frame applier (undoOperation (last (undoCommands state)))"
  shows "UNDO applier state =
      (fst (applier state (undoOperation (last (undoCommands state)))))
        \<lparr>undoCommands := butlast (undoCommands state),
         redoCommands := redoCommands state @ [last (undoCommands state)]\<rparr>"
  by (simp add: UNDO_def pop_nonempty [OF ne] stack_frame_apply [OF fr])

lemma REDO_nonempty:
  assumes ne: "redoCommands state \<noteq> []"
    and fr: "stack_frame applier (doOperation (last (redoCommands state)))"
  shows "REDO applier state =
      (fst (applier state (doOperation (last (redoCommands state)))))
        \<lparr>redoCommands := butlast (redoCommands state),
         undoCommands := undoCommands state @ [last (redoCommands state)]\<rparr>"
proof -
  let ?c = "last (redoCommands state)"
  let ?u = "undoCommands state @ [?c]"
  let ?r = "butlast (redoCommands state)"
  have "REDO applier state =
        fst (applier (state\<lparr>redoCommands := ?r, undoCommands := ?u\<rparr>) (doOperation ?c))"
    by (simp add: REDO_def pop_nonempty [OF ne])
  also have "state\<lparr>redoCommands := ?r, undoCommands := ?u\<rparr> =
             state\<lparr>undoCommands := ?u, redoCommands := ?r\<rparr>"
    by simp
  also have "fst (applier (state\<lparr>undoCommands := ?u, redoCommands := ?r\<rparr>) (doOperation ?c)) =
             (fst (applier state (doOperation ?c)))\<lparr>undoCommands := ?u, redoCommands := ?r\<rparr>"
    by (rule stack_frame_apply [OF fr])
  also have "\<dots> = (fst (applier state (doOperation ?c)))\<lparr>redoCommands := ?r, undoCommands := ?u\<rparr>"
    by simp
  finally show ?thesis .
qed

lemma commit_recorded:
  "recordOperations producer recipe state payload = Inr command \<Longrightarrow>
   createCommandMutation applier producer recipe state payload =
     (None, (fst (applier state (doOperation command)))
              \<lparr>undoCommands := undoCommands (fst (applier state (doOperation command))) @ [command],
               redoCommands := []\<rparr>)"
  by (simp add: createCommandMutation_def Let_def)

lemma commit_stacks:
  assumes "recordOperations producer recipe state payload = Inr command"
    and "stack_frame applier (doOperation command)"
  shows "undoCommands (snd (createCommandMutation applier producer recipe state payload)) =
           undoCommands state @ [command]"
    and "redoCommands (snd (createCommandMutation applier producer recipe state payload)) = []"
  by (simp_all add: commit_recorded [OF assms(1)] stack_frame_keeps [OF assms(2)])

lemma UNDO_stacks:
  assumes "undoCommands state \<noteq> []"
    and "stack_frame applier (undoOperation (last (undoCommands state)))"
  shows "undoCommands (UNDO applier state) = butlast (undoCommands state)"
    and "redoCommands (UNDO applier state) = redoCommands state @ [last (undoCommands state)]"
  by (simp_all add: UNDO_nonempty [OF assms])

subsection \<open>The applier and the recorder\<close>

lemma applyPatch_Nil: "applyPatch state [] = (state, [])"
  by (simp add: applyPatch_def)

lemma diff_same: "diff p a a = []"
  by (cases a) simp_all


lemma diff_elements_append:
  "diff_elements p i xs (xs @ [y]) = [mk_patch PatchAdd (p @ [Index (i + length xs)]) (Some y)]"
  by (induction xs arbitrary: i) (simp_all add: diff_same)

lemma diff_elements_butlast:
  "diff_elements p i (xs @ [y]) xs = [mk_patch PatchRemove (p @ [Index (i + length xs)]) None]"
  by (induction xs arbitrary: i) (simp_all add: diff_same)

lemma push_item_recorded:
  assumes "tree state = JObj [(''items'', JArr xs)]"
  shows "recordOperations produceWithPatches push_item state item =
         Inr (push_command (length xs) item)"
  using assms
  by (simp add: recordOperations_def produceWithPatches_def push_item_def push_command_def
      added_fields_def diff_elements_append diff_elements_butlast)

subsection \<open>Paths and indices\<close>

lemma join_slash_segments:
  "ss \<noteq> [] \<Longrightarrow> CHR ''/'' # join ''/'' (map segment_string ss) = slash_segments ss"
proof (induction ss)
  case Nil
  then show ?case by simp
next
  case (Cons s ss)
  then show ?case by (cases ss) simp_all
qed

lemma patchToOperation_path:
  "Operation.path (patchToOperation patch) = pointer_text (Patch.path patch)"
  by (simp add: patchToOperation_def pointer_text_def join_slash_segments)

lemma digit_char_digit:
  "d < 10 \<Longrightarrow> is_digit (digit_char d) \<and> digit_value (digit_char d) = d"
  by (simp add: is_digit_def digit_value_def digit_char_def)

lemma show_nat_nonempty: "show_nat n \<noteq> []"
  by (subst show_nat.simps) simp

lemma show_nat_digits: "list_all is_digit (show_nat n)"
proof (induction n rule: show_nat.induct)
  case (1 n)
  show ?case
  proof (cases "n < 10")
    case True
    then show ?thesis by (subst show_nat.simps) (simp add: digit_char_digit)
  next
    case False
    with 1 show ?thesis by (subst show_nat.simps) (simp add: digit_char_digit)
  qed
qed

lemma show_nat_value: "foldl (\<lambda>a c. 10 * a + digit_value c) 0 (show_nat n) = n"
proof (induction n rule: show_nat.induct)
  case (1 n)
  show ?case
  proof (cases "n < 10")
    case True
    then show ?thesis by (subst show_nat.simps) (simp add: digit_char_digit)
  next
    case False
    with 1 show ?thesis by (subst show_nat.simps) (simp add: digit_char_digit)
  qed
qed

lemma array_index_show_nat: "array_index (show_nat n) = Some n"
  by (simp add: array_index_def show_nat_nonempty show_nat_digits show_nat_value)

lemma show_nat_no_leading_zero: "n \<noteq> 0 \<Longrightarrow> hd (show_nat n) \<noteq> CHR ''0''"
proof (induction n rule: show_nat.induct)
  case (1 n)
  show ?case
  proof (cases "n < 10")
    case True
    have "of_char (digit_char n) = (48 + n :: nat)"
      using True by (simp add: digit_char_def)
    moreover have "of_char CHR ''0'' = (48 :: nat)" by simp
    ultimately have "digit_char n \<noteq> CHR ''0''" using "1.prems" by auto
    with True show ?thesis by (subst show_nat.simps) simp
  next
    case False
    then have "n div 10 \<noteq> 0" by simp
    with 1 False have "hd (show_nat (n div 10)) \<noteq> CHR ''0''" by simp
    with False show ?thesis by (subst show_nat.simps) (simp add: show_nat_nonempty)
  qed
qed

lemma show_nat_examples: "show_nat 0 = ''0''" "show_nat 2 = ''2''" "show_nat 120 = ''120''"
  by code_simp+

subsection \<open>Clearing, committing, undoing\<close>

text \<open>
  Claim C9. \<^verbatim>\<open>CLEAR_COMMANDS\<close> empties both stacks, and every other part of the state is
  what it was.
\<close>

theorem CLEAR_COMMANDS_frame:
  "undoCommands (CLEAR_COMMANDS state) = [] \<and>
   redoCommands (CLEAR_COMMANDS state) = [] \<and>
   UndoRedoState.more (CLEAR_COMMANDS state) = UndoRedoState.more state"
  by (simp add: CLEAR_COMMANDS_def)

text \<open>
  Claim C5. After a command mutation that recorded and pushed its command, the redo
  stack is empty, whatever it held before.
\<close>

theorem commit_clears_redo:
  assumes "createCommandMutation applier producer recipe state payload = (None, state')"
  shows "redoCommands state' = []"
proof (cases "recordOperations producer recipe state payload")
  case (Inl e)
  with assms show ?thesis by (simp add: createCommandMutation_def)
next
  case (Inr command)
  from assms show ?thesis unfolding commit_recorded [OF Inr] by auto
qed

theorem commit_clears_redo_witness:
  "redoCommands (items_state\<lparr>redoCommands := [stale_command]\<rparr>) \<noteq> [] \<and>
   fst (createCommandMutation applyPatch produceWithPatches push_item
          (items_state\<lparr>redoCommands := [stale_command]\<rparr>) (JStr ''c'')) = None \<and>
   redoCommands (snd (createCommandMutation applyPatch produceWithPatches push_item
          (items_state\<lparr>redoCommands := [stale_command]\<rparr>) (JStr ''c''))) = []"
proof -
  let ?s = "items_state\<lparr>redoCommands := [stale_command]\<rparr>"
  let ?m = "createCommandMutation applyPatch produceWithPatches push_item ?s (JStr ''c'')"
  have "tree ?s = JObj [(''items'', JArr [JStr ''a'', JStr ''b''])]"
    by (simp add: items_state_def)
  from push_item_recorded [OF this]
  have "recordOperations produceWithPatches push_item ?s (JStr ''c'') =
        Inr (push_command (length [JStr ''a'', JStr ''b'']) (JStr ''c''))" .
  then have ok: "fst ?m = None"
    by (simp add: commit_recorded)
  then have "?m = (None, snd ?m)" by (simp add: prod_eq_iff)
  from commit_clears_redo [OF this] ok show ?thesis by simp
qed

text \<open>
  Claim C6. \<^verbatim>\<open>UNDO\<close> on an empty undo stack leaves the state as it is (and nothing is raised:
  the mutation has no other outcome); otherwise the last command leaves the undo stack,
  its undo script is applied to the state, and the command is appended to the redo
  stack. \<^verbatim>\<open>REDO\<close> does the same with the redo stack, the forward script and the undo stack.
  The source moves the command first and then applies the script to the state object,
  stacks included (third and fourth part); when the script respects the stacks this is
  the script applied to the state as it was, with the command moved (last two parts).
\<close>

theorem UNDO_REDO_semantics:
  "(undoCommands state = [] \<longrightarrow> UNDO applier state = state) \<and>
   (redoCommands state = [] \<longrightarrow> REDO applier state = state) \<and>
   (undoCommands state \<noteq> [] \<longrightarrow>
      UNDO applier state =
      fst (applier
            (state\<lparr>undoCommands := butlast (undoCommands state),
                   redoCommands := redoCommands state @ [last (undoCommands state)]\<rparr>)
            (undoOperation (last (undoCommands state))))) \<and>
   (redoCommands state \<noteq> [] \<longrightarrow>
      REDO applier state =
      fst (applier
            (state\<lparr>redoCommands := butlast (redoCommands state),
                   undoCommands := undoCommands state @ [last (redoCommands state)]\<rparr>)
            (doOperation (last (redoCommands state))))) \<and>
   (undoCommands state \<noteq> [] \<longrightarrow>
      stack_frame applier (undoOperation (last (undoCommands state))) \<longrightarrow>
      UNDO applier state =
      (fst (applier state (undoOperation (last (undoCommands state)))))
        \<lparr>undoCommands := butlast (undoCommands state),
         redoCommands := redoCommands state @ [last (undoCommands state)]\<rparr>) \<and>
   (redoCommands state \<noteq> [] \<longrightarrow>
      stack_frame applier (doOperation (last (redoCommands state))) \<longrightarrow>
      REDO applier state =
      (fst (applier state (doOperation (last (redoCommands state)))))
        \<lparr>redoCommands := butlast (redoCommands state),
         undoCommands := undoCommands state @ [last (redoCommands state)]\<rparr>)"
proof (intro conjI impI)
  show "UNDO applier state = state" if "undoCommands state = []"
    using that by (rule UNDO_empty)
  show "REDO applier state = state" if "redoCommands state = []"
    using that by (rule REDO_empty)
  show "UNDO applier state =
      fst (applier
            (state\<lparr>undoCommands := butlast (undoCommands state),
                   redoCommands := redoCommands state @ [last (undoCommands state)]\<rparr>)
            (undoOperation (last (undoCommands state))))" if "undoCommands state \<noteq> []"
    using that by (simp add: UNDO_def pop_nonempty)
  show "REDO applier state =
      fst (applier
            (state\<lparr>redoCommands := butlast (redoCommands state),
                   undoCommands := undoCommands state @ [last (redoCommands state)]\<rparr>)
            (doOperation (last (redoCommands state))))" if "redoCommands state \<noteq> []"
    using that by (simp add: REDO_def pop_nonempty)
  show "UNDO applier state =
      (fst (applier state (undoOperation (last (undoCommands state)))))
        \<lparr>undoCommands := butlast (undoCommands state),
         redoCommands := redoCommands state @ [last (undoCommands state)]\<rparr>"
    if "undoCommands state \<noteq> []"
      and "stack_frame applier (undoOperation (last (undoCommands state)))"
    using that by (rule UNDO_nonempty)
  show "REDO applier state =
      (fst (applier state (doOperation (last (redoCommands state)))))
        \<lparr>redoCommands := butlast (redoCommands state),
         undoCommands := undoCommands state @ [last (redoCommands state)]\<rparr>"
    if "redoCommands state \<noteq> []"
      and "stack_frame applier (doOperation (last (redoCommands state)))"
    using that by (rule REDO_nonempty)
qed

lemma push_command_applied:
  "applyPatch undo_ready (undoOperation (push_command 2 (JStr ''c''))) =
     (undo_ready\<lparr>tree := JObj [(''items'', JArr [JStr ''a'', JStr ''b''])]\<rparr>, [None])"
  "applyPatch undo_ready (doOperation (push_command 3 (JStr ''d''))) =
     (undo_ready\<lparr>tree := JObj [(''items'', JArr [JStr ''a'', JStr ''b'', JStr ''c'', JStr ''d''])]\<rparr>, [None])"
  by code_simp+

theorem UNDO_REDO_semantics_witness:
  "UNDO applyPatch items_state = items_state \<and>
   REDO applyPatch items_state = items_state \<and>
   UNDO applyPatch undo_ready =
     \<lparr> undoCommands = [],
       redoCommands = [push_command 3 (JStr ''d''), push_command 2 (JStr ''c'')],
       tree = JObj [(''items'', JArr [JStr ''a'', JStr ''b''])] \<rparr> \<and>
   REDO applyPatch undo_ready =
     \<lparr> undoCommands = [push_command 2 (JStr ''c''), push_command 3 (JStr ''d'')],
       redoCommands = [],
       tree = JObj [(''items'', JArr [JStr ''a'', JStr ''b'', JStr ''c'', JStr ''d''])] \<rparr>"
proof -
  have empty: "undoCommands items_state = []" "redoCommands items_state = []"
    by (simp_all add: items_state_def)
  have stacks: "undoCommands undo_ready = [push_command 2 (JStr ''c'')]"
    "redoCommands undo_ready = [push_command 3 (JStr ''d'')]"
    by (simp_all add: undo_ready_def)
  have ne: "undoCommands undo_ready \<noteq> []" "redoCommands undo_ready \<noteq> []"
    by (simp_all add: stacks)
  from UNDO_REDO_semantics [of items_state applyPatch] empty
  have a: "UNDO applyPatch items_state = items_state \<and> REDO applyPatch items_state = items_state"
    by blast
  have u: "fst (applyPatch undo_ready (undoOperation (last (undoCommands undo_ready)))) =
      undo_ready\<lparr>tree := JObj [(''items'', JArr [JStr ''a'', JStr ''b''])]\<rparr>"
    and r: "fst (applyPatch undo_ready (doOperation (last (redoCommands undo_ready)))) =
      undo_ready\<lparr>tree := JObj [(''items'', JArr [JStr ''a'', JStr ''b'', JStr ''c'', JStr ''d''])]\<rparr>"
    by (simp_all add: stacks push_command_applied)
  have "stack_frame applyPatch (undoOperation (last (undoCommands undo_ready)))"
    and "stack_frame applyPatch (doOperation (last (redoCommands undo_ready)))"
    by (simp_all add: stacks stack_frame_applyPatch push_command_outside_stacks)
  with UNDO_REDO_semantics [of undo_ready applyPatch] ne
  have "UNDO applyPatch undo_ready =
      (fst (applyPatch undo_ready (undoOperation (last (undoCommands undo_ready)))))
        \<lparr>undoCommands := butlast (undoCommands undo_ready),
         redoCommands := redoCommands undo_ready @ [last (undoCommands undo_ready)]\<rparr>"
    and "REDO applyPatch undo_ready =
      (fst (applyPatch undo_ready (doOperation (last (redoCommands undo_ready)))))
        \<lparr>redoCommands := butlast (redoCommands undo_ready),
         undoCommands := undoCommands undo_ready @ [last (redoCommands undo_ready)]\<rparr>"
    by blast+
  then have "UNDO applyPatch undo_ready =
     \<lparr> undoCommands = [],
       redoCommands = [push_command 3 (JStr ''d''), push_command 2 (JStr ''c'')],
       tree = JObj [(''items'', JArr [JStr ''a'', JStr ''b''])] \<rparr>"
    and "REDO applyPatch undo_ready =
     \<lparr> undoCommands = [push_command 2 (JStr ''c''), push_command 3 (JStr ''d'')],
       redoCommands = [],
       tree = JObj [(''items'', JArr [JStr ''a'', JStr ''b'', JStr ''c'', JStr ''d''])] \<rparr>"
    unfolding u r by (simp_all add: stacks)
  with a show ?thesis by blast
qed

text \<open>
  Claim C8. From empty stacks, after the commit of a command A, the commit of a command
  B, an undo and the commit of a command C, the undo stack is [A, C] and the redo stack
  is empty. The scripts of the commands respect the stacks.
\<close>

theorem stack_bookkeeping:
  assumes "undoCommands s0 = []" and "redoCommands s0 = []"
    and A: "recordOperations producer rA s0 pA = Inr A"
    and s1: "s1 = snd (createCommandMutation applier producer rA s0 pA)"
    and B: "recordOperations producer rB s1 pB = Inr B"
    and s2: "s2 = snd (createCommandMutation applier producer rB s1 pB)"
    and s3: "s3 = UNDO applier s2"
    and C: "recordOperations producer rC s3 pC = Inr C"
    and s4: "s4 = snd (createCommandMutation applier producer rC s3 pC)"
    and fA: "stack_frame applier (doOperation A)"
    and fB: "stack_frame applier (doOperation B)"
    and fB': "stack_frame applier (undoOperation B)"
    and fC: "stack_frame applier (doOperation C)"
  shows "undoCommands s4 = [A, C] \<and> redoCommands s4 = []"
proof -
  have u1: "undoCommands s1 = [A]"
    using commit_stacks(1) [OF A fA] assms(1) s1 by simp
  have u2: "undoCommands s2 = [A, B]"
    using commit_stacks(1) [OF B fB] u1 s2 by simp
  have r2: "redoCommands s2 = []"
    using commit_stacks(2) [OF B fB] s2 by simp
  have ne: "undoCommands s2 \<noteq> []" and l: "last (undoCommands s2) = B"
    by (simp_all add: u2)
  from fB' l have f: "stack_frame applier (undoOperation (last (undoCommands s2)))" by simp
  have u3: "undoCommands s3 = [A]"
    using UNDO_stacks(1) [OF ne f] u2 s3 by simp
  have "undoCommands s4 = [A, C]"
    using commit_stacks(1) [OF C fC] u3 s4 by simp
  moreover have "redoCommands s4 = []"
    using commit_stacks(2) [OF C fC] s4 by simp
  ultimately show ?thesis by simp
qed

lemma bookkeeping_run:
  "snd (createCommandMutation applyPatch produceWithPatches push_item items_state (JStr ''c'')) =
     after_A"
  "snd (createCommandMutation applyPatch produceWithPatches push_item after_A (JStr ''d'')) =
     after_B"
  "UNDO applyPatch after_B = after_undo"
  "snd (createCommandMutation applyPatch produceWithPatches push_item after_undo (JStr ''e'')) =
     after_C"
  by code_simp+

theorem stack_bookkeeping_witness:
  "undoCommands items_state = [] \<and> redoCommands items_state = [] \<and>
   undoCommands after_C = [push_command 2 (JStr ''c''), push_command 3 (JStr ''e'')] \<and>
   redoCommands after_C = []"
proof -
  have e: "undoCommands items_state = []" "redoCommands items_state = []"
    by (simp_all add: items_state_def)
  have A: "recordOperations produceWithPatches push_item items_state (JStr ''c'') =
        Inr (push_command 2 (JStr ''c''))"
    using push_item_recorded [of items_state "[JStr ''a'', JStr ''b'']"]
    by (simp add: items_state_def eval_nat_numeral)
  have B: "recordOperations produceWithPatches push_item after_A (JStr ''d'') =
        Inr (push_command 3 (JStr ''d''))"
    using push_item_recorded [of after_A "[JStr ''a'', JStr ''b'', JStr ''c'']"]
    by (simp add: after_A_def eval_nat_numeral)
  have C: "recordOperations produceWithPatches push_item after_undo (JStr ''e'') =
        Inr (push_command 3 (JStr ''e''))"
    using push_item_recorded [of after_undo "[JStr ''a'', JStr ''b'', JStr ''c'']"]
    by (simp add: after_undo_def eval_nat_numeral)
  from stack_bookkeeping [OF e A bookkeeping_run(1) [symmetric] B bookkeeping_run(2) [symmetric]
      bookkeeping_run(3) [symmetric] C bookkeeping_run(4) [symmetric]
      stack_frame_applyPatch [OF push_command_outside_stacks(1)]
      stack_frame_applyPatch [OF push_command_outside_stacks(3)]
      stack_frame_applyPatch [OF push_command_outside_stacks(4)]
      stack_frame_applyPatch [OF push_command_outside_stacks(5)]]
  show ?thesis using e by simp
qed

subsection \<open>Recipes that fail or change nothing\<close>

text \<open>
  Claim C4. When the recipe raises on the draft, recording produces no command and the
  command mutation raises the same error and leaves the state, both stacks included, as
  it was: nothing is applied and nothing is pushed.
\<close>

theorem recipe_failure_atomic:
  assumes "recipe state payload = Inl e"
  shows "recordOperations produceWithPatches recipe state payload = Inl e \<and>
         createCommandMutation applier produceWithPatches recipe state payload = (Some e, state)"
  using assms
  by (simp add: createCommandMutation_def recordOperations_def produceWithPatches_def)

theorem recipe_failure_atomic_witness:
  "push_item slash_state (JStr ''c'') = Inl ''TypeError'' \<and>
   recordOperations produceWithPatches push_item slash_state (JStr ''c'') = Inl ''TypeError'' \<and>
   createCommandMutation applyPatch produceWithPatches push_item slash_state (JStr ''c'') =
     (Some ''TypeError'', slash_state)"
proof -
  have raises: "push_item slash_state (JStr ''c'') = Inl ''TypeError''"
    by (simp add: push_item_def slash_state_def)
  from recipe_failure_atomic [where recipe = push_item and state = slash_state
      and payload = "JStr ''c''" and e = "''TypeError''" and applier = applyPatch] raises
  show ?thesis by simp
qed

text \<open>
  Claim C7. A recipe that leaves the draft as the state was records a command with two
  empty scripts; the command mutation still pushes this command on the undo stack and
  empties the redo stack.
\<close>

theorem empty_diff_commit:
  assumes "recipe state payload = Inr state"
  shows "recordOperations produceWithPatches recipe state payload =
           Inr \<lparr>doOperation = [], undoOperation = []\<rparr> \<and>
         createCommandMutation applyPatch produceWithPatches recipe state payload =
           (None, state\<lparr>undoCommands :=
                          undoCommands state @ [\<lparr>doOperation = [], undoOperation = []\<rparr>],
                        redoCommands := []\<rparr>)"
proof -
  have rec: "recordOperations produceWithPatches recipe state payload =
           Inr \<lparr>doOperation = [], undoOperation = []\<rparr>"
    using assms by (simp add: recordOperations_def produceWithPatches_def diff_same)
  from commit_recorded [OF rec, of applyPatch] rec show ?thesis
    by (simp add: applyPatch_Nil)
qed

theorem empty_diff_commit_witness:
  "keep undo_ready () = Inr undo_ready \<and>
   redoCommands undo_ready \<noteq> [] \<and>
   createCommandMutation applyPatch produceWithPatches keep undo_ready () =
     (None, \<lparr> undoCommands = [push_command 2 (JStr ''c''), \<lparr>doOperation = [], undoOperation = []\<rparr>],
              redoCommands = [],
              tree = JObj [(''items'', JArr [JStr ''a'', JStr ''b'', JStr ''c''])] \<rparr>)"
proof -
  have same: "keep undo_ready () = Inr undo_ready" by (simp add: keep_def)
  from empty_diff_commit [where recipe = keep and state = undo_ready and payload = "()"] same
  show ?thesis by (simp add: undo_ready_def)
qed

subsection \<open>Scripts that fail\<close>

text \<open>
  Claim C3, as the source has it. Nothing is raised and nothing is refused when
  operations of a script fail their precondition during an undo or a redo. For every
  applier, whatever it does and reports: on a non-empty stack \<^verbatim>\<open>UNDO\<close> and \<^verbatim>\<open>REDO\<close> move the
  last command to the other stack and return the state that the applier leaves for the
  script, in every state, so also in one that a failed script has left and with no
  clearing in between; and they never read the results of the applier: with any other
  results in their place the outcome is the same.
\<close>

theorem failed_script_is_ignored:
  "(undoCommands state \<noteq> [] \<longrightarrow>
      UNDO applier state =
      fst (applier
            (state\<lparr>undoCommands := butlast (undoCommands state),
                   redoCommands := redoCommands state @ [last (undoCommands state)]\<rparr>)
            (undoOperation (last (undoCommands state))))) \<and>
   (redoCommands state \<noteq> [] \<longrightarrow>
      REDO applier state =
      fst (applier
            (state\<lparr>redoCommands := butlast (redoCommands state),
                   undoCommands := undoCommands state @ [last (redoCommands state)]\<rparr>)
            (doOperation (last (redoCommands state))))) \<and>
   UNDO (\<lambda>s operations. (fst (applier s operations), other s operations)) state =
     UNDO applier state \<and>
   REDO (\<lambda>s operations. (fst (applier s operations), other s operations)) state =
     REDO applier state"
proof (intro conjI impI)
  show "UNDO applier state =
      fst (applier
            (state\<lparr>undoCommands := butlast (undoCommands state),
                   redoCommands := redoCommands state @ [last (undoCommands state)]\<rparr>)
            (undoOperation (last (undoCommands state))))" if "undoCommands state \<noteq> []"
    using that by (simp add: UNDO_def pop_nonempty)
  show "REDO applier state =
      fst (applier
            (state\<lparr>redoCommands := butlast (redoCommands state),
                   undoCommands := undoCommands state @ [last (redoCommands state)]\<rparr>)
            (doOperation (last (redoCommands state))))" if "redoCommands state \<noteq> []"
    using that by (simp add: REDO_def pop_nonempty)
  show "UNDO (\<lambda>s operations. (fst (applier s operations), other s operations)) state =
     UNDO applier state"
    by (simp add: UNDO_def split: prod.splits option.splits)
  show "REDO (\<lambda>s operations. (fst (applier s operations), other s operations)) state =
     REDO applier state"
    by (simp add: REDO_def split: prod.splits option.splits)
qed

lemma partly_stale_scripts:
  "outside_stacks (undoOperation partly_stale_command)"
  "outside_stacks (doOperation stale_command)"
  "applyPatch
     (partly_stale\<lparr>undoCommands := [], redoCommands := [stale_command, partly_stale_command]\<rparr>)
     (undoOperation partly_stale_command) =
   (\<lparr> undoCommands = [], redoCommands = [stale_command, partly_stale_command],
      tree = JObj [(''items'', JArr [JStr ''a'', JStr ''b''])] \<rparr>,
    [Some PathMissing, None])"
  "applyPatch
     (partly_stale\<lparr>redoCommands := [], undoCommands := [partly_stale_command, stale_command]\<rparr>)
     (doOperation stale_command) =
   (\<lparr> undoCommands = [partly_stale_command, stale_command], redoCommands = [],
      tree = JObj [(''items'', JArr [JStr ''a'', JStr ''b'', JStr ''c''])] \<rparr>,
    [Some PathMissing])"
  by code_simp+

theorem failed_script_is_ignored_witness:
  "undoCommands partly_stale \<noteq> [] \<and> redoCommands partly_stale \<noteq> [] \<and>
   outside_stacks (undoOperation partly_stale_command) \<and>
   outside_stacks (doOperation stale_command) \<and>
   snd (applyPatch
          (partly_stale\<lparr>undoCommands := [],
                        redoCommands := [stale_command, partly_stale_command]\<rparr>)
          (undoOperation partly_stale_command)) = [Some PathMissing, None] \<and>
   UNDO applyPatch partly_stale =
     \<lparr> undoCommands = [], redoCommands = [stale_command, partly_stale_command],
       tree = JObj [(''items'', JArr [JStr ''a'', JStr ''b''])] \<rparr> \<and>
   snd (applyPatch
          (partly_stale\<lparr>redoCommands := [],
                        undoCommands := [partly_stale_command, stale_command]\<rparr>)
          (doOperation stale_command)) = [Some PathMissing] \<and>
   REDO applyPatch partly_stale =
     \<lparr> undoCommands = [partly_stale_command, stale_command], redoCommands = [],
       tree = JObj [(''items'', JArr [JStr ''a'', JStr ''b'', JStr ''c''])] \<rparr> \<and>
   UNDO (\<lambda>s operations. (fst (applyPatch s operations), ())) partly_stale =
     UNDO applyPatch partly_stale \<and>
   REDO (\<lambda>s operations. (fst (applyPatch s operations), ())) partly_stale =
     REDO applyPatch partly_stale"
proof -
  have u: "undoCommands partly_stale = [partly_stale_command]"
    and r: "redoCommands partly_stale = [stale_command]"
    by (simp_all add: partly_stale_def)
  note inst = failed_script_is_ignored [of partly_stale applyPatch "\<lambda>s operations. ()"]
  from inst u have "UNDO applyPatch partly_stale =
      fst (applyPatch
            (partly_stale\<lparr>undoCommands := butlast (undoCommands partly_stale),
                   redoCommands := redoCommands partly_stale @ [last (undoCommands partly_stale)]\<rparr>)
            (undoOperation (last (undoCommands partly_stale))))"
    by simp
  then have undo: "UNDO applyPatch partly_stale =
     \<lparr> undoCommands = [], redoCommands = [stale_command, partly_stale_command],
       tree = JObj [(''items'', JArr [JStr ''a'', JStr ''b''])] \<rparr>"
    by (simp add: u r partly_stale_scripts)
  from inst r have "REDO applyPatch partly_stale =
      fst (applyPatch
            (partly_stale\<lparr>redoCommands := butlast (redoCommands partly_stale),
                   undoCommands := undoCommands partly_stale @ [last (redoCommands partly_stale)]\<rparr>)
            (doOperation (last (redoCommands partly_stale))))"
    by simp
  then have redo: "REDO applyPatch partly_stale =
     \<lparr> undoCommands = [partly_stale_command, stale_command], redoCommands = [],
       tree = JObj [(''items'', JArr [JStr ''a'', JStr ''b'', JStr ''c''])] \<rparr>"
    by (simp add: u r partly_stale_scripts)
  from inst have same: "UNDO (\<lambda>s operations. (fst (applyPatch s operations), ())) partly_stale =
     UNDO applyPatch partly_stale"
    "REDO (\<lambda>s operations. (fst (applyPatch s operations), ())) partly_stale =
     REDO applyPatch partly_stale"
    by simp_all
  show ?thesis
    using undo redo same by (simp add: u r partly_stale_scripts)
qed

text \<open>
  Claim C3 as stated fails: the only operation of the undo script of \<open>stale_command\<close>
  fails with a missing path, yet \<^verbatim>\<open>UNDO\<close> returns normally with the command moved to the
  redo stack, and the \<^verbatim>\<open>REDO\<close> and the \<^verbatim>\<open>UNDO\<close> that follow are carried out, with no call
  of \<^verbatim>\<open>CLEAR_COMMANDS\<close> in between.
\<close>

theorem corrupt_history_counterexample:
  "snd (applyPatch stale_state (undoOperation stale_command)) = [Some PathMissing] \<and>
   UNDO applyPatch stale_state = stale_moved \<and>
   stale_moved \<noteq> stale_state \<and>
   REDO applyPatch (UNDO applyPatch stale_state) = stale_state \<and>
   UNDO applyPatch (REDO applyPatch (UNDO applyPatch stale_state)) = stale_moved"
  by code_simp

subsection \<open>The shape of the operations\<close>

lemma patchToOperation_emitted: "emitted_for patch (patchToOperation patch)"
  by (simp add: emitted_for_def patchToOperation_path) (simp add: patchToOperation_def)

lemma map_patchToOperation_emitted:
  "list_all2 emitted_for patches (map patchToOperation patches)"
  by (induction patches) (simp_all add: patchToOperation_emitted)

lemma emitted_paths:
  "Operation.path (patchToOperation (mk_patch kind [] v)) = ''/''"
  "Operation.path (patchToOperation (mk_patch kind [Key ''items'', Index 2] v)) = ''/items/2''"
  "Operation.path (patchToOperation (mk_patch kind [Key ''a'', Index 120, Key ''b''] v)) =
     ''/a/120/b''"
  "Operation.path (patchToOperation (mk_patch kind [Key ''m~n'', Key ''x/y''] v)) = ''/m~n/x/y''"
  "Operation.path (patchToOperation (mk_patch kind [Key ''a/b''] v)) = ''/a/b''"
  "Operation.path (patchToOperation (mk_patch kind [Key ''a'', Key ''b''] v)) = ''/a/b''"
  by (simp_all add: patchToOperation_def mk_patch_def show_nat_examples)

text \<open>
  Claim C10. Every operation of a recorded command is emitted for one recorded patch,
  in order: its path is the string in which every segment of the patch follows a slash
  (the single slash when the patch has no segment), a key written as it is, with
  nothing escaped, an index as its decimal digits; it carries the property \<^verbatim>\<open>value\<close>, a
  remove operation too, and never the property \<^verbatim>\<open>from\<close>. The paths of some patches are
  written out; the one key \<^verbatim>\<open>a/b\<close> and the two keys \<^verbatim>\<open>a\<close>, \<^verbatim>\<open>b\<close> give the same operation, with
  the path \<^verbatim>\<open>/a/b\<close>.
\<close>

theorem emitted_operation_shape:
  "(producer state (\<lambda>draft. recipe draft payload) = Inr (next, doPatches, undoPatches) \<longrightarrow>
      (\<exists>command. recordOperations producer recipe state payload = Inr command \<and>
         list_all2 emitted_for doPatches (doOperation command) \<and>
         list_all2 emitted_for undoPatches (undoOperation command))) \<and>
   Operation.path (patchToOperation patch) = pointer_text (Patch.path patch) \<and>
   Operation.value' (patchToOperation patch) \<noteq> None \<and>
   Operation.from' (patchToOperation patch) = None \<and>
   segment_string (Key k) = k \<and>
   array_index (segment_string (Index n)) = Some n \<and>
   (n \<noteq> 0 \<longrightarrow> hd (segment_string (Index n)) \<noteq> CHR ''0'') \<and>
   Operation.path (patchToOperation (mk_patch kind [] v)) = ''/'' \<and>
   Operation.path (patchToOperation (mk_patch kind [Key ''items'', Index 2] v)) = ''/items/2'' \<and>
   Operation.path (patchToOperation (mk_patch kind [Key ''a'', Index 120, Key ''b''] v)) =
     ''/a/120/b'' \<and>
   Operation.path (patchToOperation (mk_patch kind [Key ''m~n'', Key ''x/y''] v)) =
     ''/m~n/x/y'' \<and>
   Operation.value' (patchToOperation (mk_patch PatchRemove p None)) = Some JUndefined \<and>
   [Key ''a/b''] \<noteq> [Key ''a'', Key ''b''] \<and>
   patchToOperation (mk_patch kind [Key ''a/b''] v) =
     patchToOperation (mk_patch kind [Key ''a'', Key ''b''] v) \<and>
   Operation.path (patchToOperation (mk_patch kind [Key ''a/b''] v)) = ''/a/b''"
proof -
  have "producer state (\<lambda>draft. recipe draft payload) = Inr (next, doPatches, undoPatches) \<longrightarrow>
      (\<exists>command. recordOperations producer recipe state payload = Inr command \<and>
         list_all2 emitted_for doPatches (doOperation command) \<and>
         list_all2 emitted_for undoPatches (undoOperation command))"
    by (simp add: recordOperations_def map_patchToOperation_emitted)
  moreover have "Operation.value' (patchToOperation patch) \<noteq> None"
    and "Operation.from' (patchToOperation patch) = None"
    and "Operation.value' (patchToOperation (mk_patch PatchRemove p None)) = Some JUndefined"
    and "patchToOperation (mk_patch kind [Key ''a/b''] v) =
     patchToOperation (mk_patch kind [Key ''a'', Key ''b''] v)"
    by (simp_all add: patchToOperation_def mk_patch_def)
  moreover have "n \<noteq> 0 \<longrightarrow> hd (segment_string (Index n)) \<noteq> CHR ''0''"
    by (simp add: show_nat_no_leading_zero)
  moreover have "Operation.path (patchToOperation patch) = pointer_text (Patch.path patch)"
    by (rule patchToOperation_path)
  ultimately show ?thesis
    by (simp add: array_index_show_nat emitted_paths)
qed

theorem emitted_operation_shape_witness:
  "produceWithPatches items_state (\<lambda>draft. push_item draft (JStr ''c'')) =
     Inr (after_A\<lparr>undoCommands := []\<rparr>,
          [mk_patch PatchAdd [Key ''items'', Index 2] (Some (JStr ''c''))],
          [mk_patch PatchRemove [Key ''items'', Index 2] None]) \<and>
   recordOperations produceWithPatches push_item items_state (JStr ''c'') =
     Inr (push_command 2 (JStr ''c'')) \<and>
   list_all2 emitted_for [mk_patch PatchAdd [Key ''items'', Index 2] (Some (JStr ''c''))]
     (doOperation (push_command 2 (JStr ''c''))) \<and>
   list_all2 emitted_for [mk_patch PatchRemove [Key ''items'', Index 2] None]
     (undoOperation (push_command 2 (JStr ''c''))) \<and>
   doOperation (push_command 2 (JStr ''c'')) =
     [\<lparr> Operation.op = Add, path = ''/items/2'', value' = Some (JStr ''c''), from' = None \<rparr>] \<and>
   undoOperation (push_command 2 (JStr ''c'')) =
     [\<lparr> Operation.op = Remove, path = ''/items/2'', value' = Some JUndefined, from' = None \<rparr>] \<and>
   (2 :: nat) \<noteq> 0 \<and> hd (segment_string (Index 2)) \<noteq> CHR ''0''"
proof -
  have p: "produceWithPatches items_state (\<lambda>draft. push_item draft (JStr ''c'')) =
     Inr (after_A\<lparr>undoCommands := []\<rparr>,
          [mk_patch PatchAdd [Key ''items'', Index 2] (Some (JStr ''c''))],
          [mk_patch PatchRemove [Key ''items'', Index 2] None])"
    by (simp add: produceWithPatches_def push_item_def items_state_def after_A_def
        added_fields_def diff_elements_append [of _ _ "[JStr ''a'', JStr ''b'']", simplified]
        diff_elements_butlast [of _ _ "[JStr ''a'', JStr ''b'']", simplified] eval_nat_numeral)
  have r: "recordOperations produceWithPatches push_item items_state (JStr ''c'') =
     Inr (push_command 2 (JStr ''c''))"
    using push_item_recorded [of items_state "[JStr ''a'', JStr ''b'']"]
    by (simp add: items_state_def eval_nat_numeral)
  have ops: "doOperation (push_command 2 (JStr ''c'')) =
     [\<lparr> Operation.op = Add, path = ''/items/2'', value' = Some (JStr ''c''), from' = None \<rparr>]"
    "undoOperation (push_command 2 (JStr ''c'')) =
     [\<lparr> Operation.op = Remove, path = ''/items/2'', value' = Some JUndefined, from' = None \<rparr>]"
    by code_simp+
  note shape = emitted_operation_shape [of produceWithPatches items_state push_item "JStr ''c''"
      "after_A\<lparr>undoCommands := []\<rparr>"
      "[mk_patch PatchAdd [Key ''items'', Index 2] (Some (JStr ''c''))]"
      "[mk_patch PatchRemove [Key ''items'', Index 2] None]" _ _ 2]
  from shape p
  obtain command where
    c: "recordOperations produceWithPatches push_item items_state (JStr ''c'') = Inr command"
    and d: "list_all2 emitted_for [mk_patch PatchAdd [Key ''items'', Index 2] (Some (JStr ''c''))]
       (doOperation command)"
    and u: "list_all2 emitted_for [mk_patch PatchRemove [Key ''items'', Index 2] None]
       (undoOperation command)"
    by blast
  from c r have "command = push_command 2 (JStr ''c'')" by simp
  moreover from shape have "hd (segment_string (Index 2)) \<noteq> CHR ''0''" by simp
  ultimately show ?thesis using d u p r ops by simp
qed

subsection \<open>The scenario of the specification\<close>

text \<open>
  Claim C2. For the state with \<^verbatim>\<open>items = ["a", "b"]\<close> and the recipe that appends \<^verbatim>\<open>"c"\<close>,
  the forward script is the one operation emitted for the patch \<^verbatim>\<open>add ["items", 2] "c"\<close>
  and the inverse script the one emitted for \<^verbatim>\<open>remove ["items", 2]\<close>; after the commit
  the items are a, b, c; after the undo a, b; after the redo a, b, c again.
\<close>

theorem append_scenario:
  "recordOperations produceWithPatches push_item items_state (JStr ''c'') =
     Inr \<lparr> doOperation =
             [patchToOperation (mk_patch PatchAdd [Key ''items'', Index 2] (Some (JStr ''c'')))],
           undoOperation =
             [patchToOperation (mk_patch PatchRemove [Key ''items'', Index 2] None)] \<rparr> \<and>
   patchToOperation (mk_patch PatchAdd [Key ''items'', Index 2] (Some (JStr ''c''))) =
     \<lparr> Operation.op = Add, path = ''/items/2'', value' = Some (JStr ''c''), from' = None \<rparr> \<and>
   patchToOperation (mk_patch PatchRemove [Key ''items'', Index 2] None) =
     \<lparr> Operation.op = Remove, path = ''/items/2'', value' = Some JUndefined, from' = None \<rparr> \<and>
   fst (createCommandMutation applyPatch produceWithPatches push_item items_state (JStr ''c'')) = None \<and>
   tree (snd (createCommandMutation applyPatch produceWithPatches push_item items_state (JStr ''c''))) =
     JObj [(''items'', JArr [JStr ''a'', JStr ''b'', JStr ''c''])] \<and>
   tree (UNDO applyPatch
     (snd (createCommandMutation applyPatch produceWithPatches push_item items_state (JStr ''c'')))) =
     JObj [(''items'', JArr [JStr ''a'', JStr ''b''])] \<and>
   tree (REDO applyPatch (UNDO applyPatch
     (snd (createCommandMutation applyPatch produceWithPatches push_item items_state (JStr ''c''))))) =
     JObj [(''items'', JArr [JStr ''a'', JStr ''b'', JStr ''c''])]"
  by code_simp

subsection \<open>A key with a slash\<close>

text \<open>
  Claim C1 at the state with the one property \<^verbatim>\<open>a/b\<close> and the recipe that assigns 2 to
  it. The recipe gives the tree with 2 under \<^verbatim>\<open>a/b\<close>; the recorded forward operation has
  the path \<^verbatim>\<open>/a/b\<close>, which the applier reads as the two tokens \<^verbatim>\<open>a\<close> and \<^verbatim>\<open>b\<close>; the
  operation fails and the commit leaves the tree with 1 under \<^verbatim>\<open>a/b\<close>.
\<close>

theorem slash_key_round_trip_fails:
  "assign_key slash_state (''a/b'', JNum 2) =
     Inr (slash_state\<lparr>tree := JObj [(''a/b'', JNum 2)]\<rparr>) \<and>
   recordOperations produceWithPatches assign_key slash_state (''a/b'', JNum 2) =
     Inr \<lparr> doOperation =
             [\<lparr> Operation.op = Replace, path = ''/a/b'', value' = Some (JNum 2), from' = None \<rparr>],
           undoOperation =
             [\<lparr> Operation.op = Replace, path = ''/a/b'', value' = Some (JNum 1), from' = None \<rparr>] \<rparr> \<and>
   pointer_tokens ''/a/b'' = Some [''a'', ''b''] \<and>
   applyPatch slash_state
       [\<lparr> Operation.op = Replace, path = ''/a/b'', value' = Some (JNum 2), from' = None \<rparr>] =
     (slash_state, [Some PathMissing]) \<and>
   fst (createCommandMutation applyPatch produceWithPatches assign_key slash_state (''a/b'', JNum 2)) =
     None \<and>
   tree (snd (createCommandMutation applyPatch produceWithPatches assign_key slash_state
                (''a/b'', JNum 2))) =
     JObj [(''a/b'', JNum 1)]"
  by code_simp

end
